theory Spec2Isabelle
  imports Main "HOL-Library.Sublist"
begin

section \<open>The scenario catalogue of \<^verbatim>\<open>smartdata_run.py\<close>\<close>

text \<open>
  The script \<^verbatim>\<open>src/main/python/smart/smartdata_run.py\<close> binds nineteen scenario
  tuples to names, collects them in three lists (one per analysis year), joins the
  three lists with \<^verbatim>\<open>+\<close>, puts the result in a dictionary literal, hands the dictionary
  to \<^verbatim>\<open>smartdata_setup.make_plots\<close> and finally prints \<^verbatim>\<open>END\<close>.
\<close>

subsection \<open>Python values\<close>

text \<open>
  The values the script builds are integers, strings, tuples and lists. A tuple is
  heterogeneous and of any length, so it is a list of values under its own constructor;
  nothing in the type forces seven fields or a well-formed URI.
\<close>

datatype pyval =
    PyInt int
  | PyStr string
  | PyTuple "pyval list"
  | PyList "pyval list"

text \<open>A dictionary with string keys, in insertion order.\<close>

type_synonym pydict = "(string \<times> pyval) list"

text \<open>
  Field \<open>i\<close> of a tuple, counted from 0. The script never subscripts anything; this
  projection only serves to state what the records hold. It is \<open>None\<close> when the tuple
  has no field \<open>i\<close>, and also on every value that is not a tuple.
\<close>

definition tuple_item :: "pyval \<Rightarrow> nat \<Rightarrow> pyval option" where
  "tuple_item t i =
     (case t of
        PyTuple vs \<Rightarrow> if i < length vs then Some (vs ! i) else None
      | _ \<Rightarrow> None)"

definition record_id :: "pyval \<Rightarrow> pyval option" where
  "record_id r = tuple_item r 0"

definition record_year :: "pyval \<Rightarrow> pyval option" where
  "record_year r = tuple_item r 1"

definition record_horizon_span :: "pyval \<Rightarrow> pyval option" where
  "record_horizon_span r = tuple_item r 2"

definition record_source_uri :: "pyval \<Rightarrow> pyval option" where
  "record_source_uri r = tuple_item r 6"

subsection \<open>The scenario tuples (lines 5 to 41)\<close>

text \<open>
  Only the assignments the interpreter executes are constants here; the lines that
  start with \<^verbatim>\<open>#\<close> bind nothing.
\<close>

definition baseline_2010 :: pyval where
  "baseline_2010 = PyTuple [PyInt 1, PyInt 2010, PyInt 15, PyStr ''base'', PyStr ''Base'', PyStr ''baseline'',
     PyStr ''https://beam-outputs.s3.amazonaws.com/output/sfbay/sfbay-smart-base-2010__2019-09-20_21-12-45'']"

definition a_lt_2010 :: pyval where
  "a_lt_2010 = PyTuple [PyInt 6, PyInt 2010, PyInt 15, PyStr ''a'', PyStr ''Low Tech'', PyStr ''a_lt'',
     PyStr ''https://beam-outputs.s3.amazonaws.com/output/sfbay/sfbay-smart-a-lt-2010__2019-09-20_21-12-45'']"

definition a_ht_2010 :: pyval where
  "a_ht_2010 = PyTuple [PyInt 7, PyInt 2010, PyInt 15, PyStr ''a'', PyStr ''High Tech'', PyStr ''a_ht'',
     PyStr ''https://beam-outputs.s3.amazonaws.com/output/sfbay/sfbay-smart-a-ht-2010__2019-09-20_21-12-45'']"

definition b_lt_2010 :: pyval where
  "b_lt_2010 = PyTuple [PyInt 8, PyInt 2010, PyInt 15, PyStr ''b'', PyStr ''Low Tech'', PyStr ''b_lt'',
     PyStr ''https://beam-outputs.s3.amazonaws.com/output/sfbay/sfbay-smart-b-lt-2010__2019-09-20_21-12-45'']"

definition b_ht_2010 :: pyval where
  "b_ht_2010 = PyTuple [PyInt 9, PyInt 2010, PyInt 15, PyStr ''b'', PyStr ''High Tech'', PyStr ''b_ht'',
     PyStr ''https://beam-outputs.s3.amazonaws.com/output/sfbay/sfbay-smart-b-ht-2010__2019-09-20_21-12-46'']"

definition c_lt_2010 :: pyval where
  "c_lt_2010 = PyTuple [PyInt 10, PyInt 2010, PyInt 15, PyStr ''c'', PyStr ''Low Tech'', PyStr ''c_lt'',
     PyStr ''https://beam-outputs.s3.amazonaws.com/output/sfbay/sfbay-smart-c-lt-2010__2019-09-20_21-12-45'']"

definition c_ht_2010 :: pyval where
  "c_ht_2010 = PyTuple [PyInt 11, PyInt 2010, PyInt 15, PyStr ''c'', PyStr ''High Tech'', PyStr ''c_ht'',
     PyStr ''https://beam-outputs.s3.amazonaws.com/output/sfbay/sfbay-smart-c-ht-2010__2019-09-20_21-12-45'']"

definition baseline_2025 :: pyval where
  "baseline_2025 = PyTuple [PyInt 1, PyInt 2025, PyInt 15, PyStr ''base'', PyStr ''Base'', PyStr ''baseline'',
     PyStr ''https://beam-outputs.s3.amazonaws.com/output/sfbay/sfbay-smart-base-2025__2019-09-20_21-12-45'']"

definition base_2030lt_2025 :: pyval where
  "base_2030lt_2025 = PyTuple [PyInt 2, PyInt 2025, PyInt 15, PyStr ''base'', PyStr ''2030 Low Tech'', PyStr ''base_fleet_2030_lt'',
     PyStr ''https://beam-outputs.s3.amazonaws.com/output/sfbay/sfbay-smart-base-2030-lt-2025__2019-09-20_21-13-01'']"

definition base_2030ht_2025 :: pyval where
  "base_2030ht_2025 = PyTuple [PyInt 3, PyInt 2025, PyInt 15, PyStr ''base'', PyStr ''2030 High Tech'', PyStr ''base_fleet_2030_ht'',
     PyStr ''https://beam-outputs.s3.amazonaws.com/output/sfbay/sfbay-smart-base-2030-ht-2025__2019-09-20_21-13-12'']"

definition a_lt_2025 :: pyval where
  "a_lt_2025 = PyTuple [PyInt 6, PyInt 2025, PyInt 15, PyStr ''a'', PyStr ''Low Tech'', PyStr ''a_lt'',
     PyStr ''https://beam-outputs.s3.amazonaws.com/output/sfbay/sfbay-smart-a-lt-2025__2019-09-20_21-12-45'']"

definition a_ht_2025 :: pyval where
  "a_ht_2025 = PyTuple [PyInt 7, PyInt 2025, PyInt 15, PyStr ''a'', PyStr ''High Tech'', PyStr ''a_ht'',
     PyStr ''https://beam-outputs.s3.amazonaws.com/output/sfbay/sfbay-smart-a-ht-2025__2019-09-20_21-12-45'']"

definition baseline_2040 :: pyval where
  "baseline_2040 = PyTuple [PyInt 1, PyInt 2040, PyInt 15, PyStr ''base'', PyStr ''Base'', PyStr ''baseline'',
     PyStr ''https://beam-outputs.s3.amazonaws.com/output/sfbay/sfbay-smart-base-2040__2019-09-20_21-12-45'']"

definition base_2045lt_2040 :: pyval where
  "base_2045lt_2040 = PyTuple [PyInt 4, PyInt 2040, PyInt 15, PyStr ''base'', PyStr ''2045 Low Tech'', PyStr ''base_fleet_2045_lt'',
     PyStr ''https://beam-outputs.s3.amazonaws.com/output/sfbay/sfbay-smart-base-2045-lt-2040__2019-09-22_19-47-05'']"

definition base_2045ht_2040 :: pyval where
  "base_2045ht_2040 = PyTuple [PyInt 5, PyInt 2040, PyInt 15, PyStr ''base'', PyStr ''2045 High Tech'', PyStr ''base_fleet_2045_ht'',
     PyStr ''https://beam-outputs.s3.amazonaws.com/output/sfbay/sfbay-smart-base-2045-ht-2040__2019-09-22_19-47-05'']"

definition b_lt_2040 :: pyval where
  "b_lt_2040 = PyTuple [PyInt 8, PyInt 2040, PyInt 15, PyStr ''b'', PyStr ''Low Tech'', PyStr ''b_lt'',
     PyStr ''https://beam-outputs.s3.amazonaws.com/output/sfbay/sfbay-smart-b-lt-2040__2019-09-20_21-12-45'']"

definition b_ht_2040 :: pyval where
  "b_ht_2040 = PyTuple [PyInt 9, PyInt 2040, PyInt 15, PyStr ''b'', PyStr ''High Tech'', PyStr ''b_ht'',
     PyStr ''https://beam-outputs.s3.amazonaws.com/output/sfbay/sfbay-smart-b-ht-2040__2019-09-20_21-12-45'']"

definition c_lt_2040 :: pyval where
  "c_lt_2040 = PyTuple [PyInt 10, PyInt 2040, PyInt 15, PyStr ''c'', PyStr ''Low Tech'', PyStr ''c_lt'',
     PyStr ''https://beam-outputs.s3.amazonaws.com/output/sfbay/sfbay-smart-c-lt-2040__2019-09-20_21-12-45'']"

definition c_ht_2040 :: pyval where
  "c_ht_2040 = PyTuple [PyInt 11, PyInt 2040, PyInt 15, PyStr ''c'', PyStr ''High Tech'', PyStr ''c_ht'',
     PyStr ''https://beam-outputs.s3.amazonaws.com/output/sfbay/sfbay-smart-c-ht-2040__2019-09-20_21-12-45'']"

subsection \<open>The year groups and the catalogue (lines 44 to 49)\<close>

definition scenarios_2010 :: "pyval list" where
  "scenarios_2010 =
     [baseline_2010, a_lt_2010, a_ht_2010, b_lt_2010, b_ht_2010, c_lt_2010, c_ht_2010]"

definition scenarios_2025 :: "pyval list" where
  "scenarios_2025 =
     [baseline_2025, base_2030lt_2025, base_2030ht_2025, a_lt_2025, a_ht_2025]"

definition scenarios_2040 :: "pyval list" where
  "scenarios_2040 =
     [baseline_2040, base_2045lt_2040, base_2045ht_2040, b_lt_2040, b_ht_2040, c_lt_2040,
      c_ht_2040]"

text \<open>
  \<^verbatim>\<open>scenarios = scenarios_2010 + scenarios_2025 + scenarios_2040\<close>: Python's \<^verbatim>\<open>+\<close>
  associates to the left and builds a new list at each step.
\<close>

definition scenarios :: "pyval list" where
  "scenarios = (scenarios_2010 @ scenarios_2025) @ scenarios_2040"

text \<open>
  Modelled from the spec: the catalogue of no groups at all. The script always joins
  exactly three lists, so it has no expression for this case; section 8 of the spec
  ("empty group list") gives the empty catalogue.
\<close>

definition empty_catalog :: "pyval list" where
  "empty_catalog = []"

text \<open>
  The chain of \<^verbatim>\<open>+\<close> of line 49 over one or more groups: the first group, then each
  further group appended to what has been built so far. Only the case of no group is
  not taken from the script.
\<close>

fun build_catalog :: "pyval list list \<Rightarrow> pyval list" where
  "build_catalog [] = empty_catalog"
| "build_catalog (g # gs) = foldl (@) g gs"

text \<open>Where the records of group \<open>i\<close> start in the catalogue.\<close>

definition group_offset :: "pyval list list \<Rightarrow> nat \<Rightarrow> nat" where
  "group_offset gs i = sum_list (map length (take i gs))"

subsection \<open>Line 49 on list objects\<close>

text \<open>
  In Python a list is an object and a name holds a reference to it. The store keeps the
  list objects allocated so far; an address is a position in it.
\<close>

type_synonym addr = nat

type_synonym store = "pyval list list"

definition fetch :: "store \<Rightarrow> addr \<Rightarrow> pyval list option" where
  "fetch \<sigma> a = (if a < length \<sigma> then Some (\<sigma> ! a) else None)"

text \<open>
  \<^verbatim>\<open>a + b\<close> on two list objects: it reads both operands and allocates a new list
  object for the result, at the next free address. Neither operand is written. \<open>None\<close>
  when a reference dangles.
\<close>

definition list_add :: "addr \<Rightarrow> addr \<Rightarrow> store \<Rightarrow> (addr \<times> store) option" where
  "list_add a b \<sigma> =
     (case fetch \<sigma> a of
        None \<Rightarrow> None
      | Some xs \<Rightarrow>
          (case fetch \<sigma> b of
             None \<Rightarrow> None
           | Some ys \<Rightarrow> Some (length \<sigma>, \<sigma> @ [xs @ ys])))"

text \<open>
  \<^verbatim>\<open>a + b1 + ... + bn\<close>, evaluated from the left as Python does: each \<^verbatim>\<open>+\<close> takes
  the object built so far and the next operand. Line 49 is the chain with \<open>n = 2\<close>.
\<close>

fun add_chain :: "addr \<Rightarrow> addr list \<Rightarrow> store \<Rightarrow> (addr \<times> store) option" where
  "add_chain a [] \<sigma> = Some (a, \<sigma>)"
| "add_chain a (b # bs) \<sigma> =
     (case list_add a b \<sigma> of
        None \<Rightarrow> None
      | Some (c, \<sigma>') \<Rightarrow> add_chain c bs \<sigma>')"

text \<open>The records of the list object the chain evaluates to.\<close>

definition build_catalog_in :: "store \<Rightarrow> addr \<Rightarrow> addr list \<Rightarrow> pyval list option" where
  "build_catalog_in \<sigma> a bs =
     (case add_chain a bs \<sigma> of
        None \<Rightarrow> None
      | Some (c, \<sigma>') \<Rightarrow> fetch \<sigma>' c)"

subsection \<open>The run configuration (lines 51 to 55)\<close>

text \<open>The dictionary literal, with its three keys in the order they are written.\<close>

definition setup_config_dict :: pydict where
  "setup_config_dict =
     [(''run_name'', PyStr ''20thSep2019''),
      (''home_dir'', PyStr ''/home/ubuntu/git/jupyter/data''),
      (''scenarios'', PyList scenarios)]"

text \<open>The same literal with its three values as parameters. Nothing is inspected.\<close>

definition build_run_config :: "string \<Rightarrow> string \<Rightarrow> pyval list \<Rightarrow> pydict" where
  "build_run_config run_name home_dir catalog =
     [(''run_name'', PyStr run_name),
      (''home_dir'', PyStr home_dir),
      (''scenarios'', PyList catalog)]"

text \<open>\<^verbatim>\<open>d[k]\<close> and the keys of a dictionary.\<close>

definition dict_get :: "pydict \<Rightarrow> string \<Rightarrow> pyval option" where
  "dict_get d k = map_of d k"

definition dict_keys :: "pydict \<Rightarrow> string list" where
  "dict_keys d = map fst d"

subsection \<open>The call and the completion marker (lines 58 and 60)\<close>

text \<open>
  \<^verbatim>\<open>smartdata_setup.make_plots\<close> is not part of the script: it is a parameter of
  the model. Called with a configuration in a world of type \<open>'w\<close> (files, network,
  whatever it touches), it returns, raises an exception of type \<open>'e\<close>, or never comes
  back.
\<close>

datatype ('e, 'w) reply = Return 'w | Raise 'e 'w | NoReturn

type_synonym ('e, 'w) collaborator = "pydict \<Rightarrow> 'w \<Rightarrow> ('e, 'w) reply"

text \<open>
  What the script itself does at its boundary, in order: a call of the collaborator
  with its argument, or a line written to standard output.
\<close>

datatype event = Invoke pydict | Print string

record 'w process =
  events :: "event list"
  world :: 'w

text \<open>
  How a statement ends: normally, with an exception on its way to the process boundary,
  or not at all. The state is the one reached.
\<close>

datatype ('e, 's) outcome = Normal 's | Raised 'e 's | Diverged 's

fun state_of :: "('e, 's) outcome \<Rightarrow> 's" where
  "state_of (Normal s) = s"
| "state_of (Raised e s) = s"
| "state_of (Diverged s) = s"

text \<open>
  \<^verbatim>\<open>smartdata_setup.make_plots(config)\<close>: one blocking call. There is no
  \<^verbatim>\<open>try\<close> around it, so an exception leaves the statement as it came.
\<close>

definition execute ::
  "('e, 'w) collaborator \<Rightarrow> pydict \<Rightarrow> 'w process \<Rightarrow> ('e, 'w process) outcome" where
  "execute make_plots config s =
     (case make_plots config (world s) of
        Return w \<Rightarrow> Normal \<lparr>events = events s @ [Invoke config], world = w\<rparr>
      | Raise e w \<Rightarrow> Raised e \<lparr>events = events s @ [Invoke config], world = w\<rparr>
      | NoReturn \<Rightarrow> Diverged \<lparr>events = events s @ [Invoke config], world = world s\<rparr>)"

text \<open>\<^verbatim>\<open>print(line)\<close>.\<close>

definition py_print :: "string \<Rightarrow> 'w process \<Rightarrow> ('e, 'w process) outcome" where
  "py_print line s = Normal (s\<lparr>events := events s @ [Print line]\<rparr>)"

text \<open>Two statements in sequence: the second runs only if the first ends normally.\<close>

definition and_then ::
  "('s \<Rightarrow> ('e, 's) outcome) \<Rightarrow> ('s \<Rightarrow> ('e, 's) outcome) \<Rightarrow> 's \<Rightarrow> ('e, 's) outcome" where
  "and_then f g s =
     (case f s of
        Normal s' \<Rightarrow> g s'
      | Raised e s' \<Rightarrow> Raised e s'
      | Diverged s' \<Rightarrow> Diverged s')"

text \<open>
  The effectful part of the module: the call of line 58, then the \<^verbatim>\<open>print\<close> of
  line 60. A run starts with nothing done yet.
\<close>

definition main :: "('e, 'w) collaborator \<Rightarrow> 'w process \<Rightarrow> ('e, 'w process) outcome" where
  "main make_plots = and_then (execute make_plots setup_config_dict) (py_print ''END'')"

definition start :: "'w \<Rightarrow> 'w process" where
  "start w = \<lparr>events = [], world = w\<rparr>"

text \<open>The arguments of the collaborator calls among some events, and the lines printed.\<close>

fun invocations :: "event list \<Rightarrow> pydict list" where
  "invocations [] = []"
| "invocations (Invoke c # es) = c # invocations es"
| "invocations (Print l # es) = invocations es"

fun printed :: "event list \<Rightarrow> string list" where
  "printed [] = []"
| "printed (Invoke c # es) = printed es"
| "printed (Print l # es) = l # printed es"

subsection \<open>The record schema\<close>

definition is_int :: "pyval \<Rightarrow> bool" where
  "is_int v = (case v of PyInt n \<Rightarrow> True | _ \<Rightarrow> False)"

definition is_positive_int :: "pyval \<Rightarrow> bool" where
  "is_positive_int v = (case v of PyInt n \<Rightarrow> 0 < n | _ \<Rightarrow> False)"

definition is_str :: "pyval \<Rightarrow> bool" where
  "is_str v = (case v of PyStr x \<Rightarrow> True | _ \<Rightarrow> False)"

definition is_group_name :: "pyval \<Rightarrow> bool" where
  "is_group_name v =
     (case v of PyStr x \<Rightarrow> x \<in> set [''base'', ''a'', ''b'', ''c''] | _ \<Rightarrow> False)"

text \<open>
  A scenario record: a tuple of exactly seven fields, a positive integer id, an integer
  year, an integer horizon span, one of the four group names, and three strings (label,
  slug, source URI).
\<close>

definition scenario_record :: "pyval \<Rightarrow> bool" where
  "scenario_record r =
     (case r of
        PyTuple vs \<Rightarrow>
          length vs = 7 \<and> is_positive_int (vs ! 0) \<and> is_int (vs ! 1) \<and> is_int (vs ! 2)
          \<and> is_group_name (vs ! 3) \<and> is_str (vs ! 4) \<and> is_str (vs ! 5) \<and> is_str (vs ! 6)
      | _ \<Rightarrow> False)"

text \<open>Whether the seventh field is a string that starts with the given text.\<close>

definition uri_startswith :: "string \<Rightarrow> pyval \<Rightarrow> bool" where
  "uri_startswith p r =
     (case record_source_uri r of Some (PyStr u) \<Rightarrow> prefix p u | _ \<Rightarrow> False)"

definition sfbay_output_url :: string where
  "sfbay_output_url = ''https://beam-outputs.s3.amazonaws.com/output/sfbay/''"

text \<open>The identifier together with the year.\<close>

definition record_key :: "pyval \<Rightarrow> pyval option \<times> pyval option" where
  "record_key r = (record_id r, record_year r)"

text \<open>
  The tuples of the fourteen assignments that are commented out (lines 6 to 9, 21, 22,
  25 to 28, 32, 33, 36 and 37), in file order. The interpreter never sees them; they are
  listed to state what distinguishes them from the enabled ones.
\<close>

definition commented_out :: "pyval list" where
  "commented_out =
    [PyTuple [PyInt 2, PyInt 2010, PyInt 15, PyStr ''base'', PyStr ''2030 Low Tech'', PyStr ''base_fleet_2030_lt'',
       PyStr ''beam/sfbay-smart-base-2030-lt-pilates__2019-09-11_04-49-22''],
     PyTuple [PyInt 3, PyInt 2010, PyInt 15, PyStr ''base'', PyStr ''2030 High Tech'', PyStr ''base_fleet_2030_ht'',
       PyStr ''beam/sfbay-smart-base-2030-ht-pilates__2019-09-11_04-50-11''],
     PyTuple [PyInt 4, PyInt 2010, PyInt 15, PyStr ''base'', PyStr ''2045 Low Tech'', PyStr ''base_fleet_2045_lt'',
       PyStr ''beam/sfbay-smart-base-2045-lt-pilates__2019-09-11_04-51-06''],
     PyTuple [PyInt 5, PyInt 2010, PyInt 15, PyStr ''base'', PyStr ''2045 High Tech'', PyStr ''base_fleet_2045_ht'',
       PyStr ''beam/sfbay-smart-base-2045-ht-pilates__2019-09-11_04-51-47''],
     PyTuple [PyInt 4, PyInt 2025, PyInt 15, PyStr ''base'', PyStr ''2045 Low Tech'', PyStr ''base_fleet_2045_lt'',
       PyStr ''https://beam-outputs.s3.amazonaws.com/output/sfbay/sfbay-smart-base-2045-lt-2025__2019-09-20_21-13-13''],
     PyTuple [PyInt 5, PyInt 2025, PyInt 15, PyStr ''base'', PyStr ''2045 High Tech'', PyStr ''base_fleet_2045_ht'',
       PyStr ''https://beam-outputs.s3.amazonaws.com/output/sfbay/sfbay-smart-base-2045-ht-2025__2019-09-20_22-41-25''],
     PyTuple [PyInt 8, PyInt 2025, PyInt 15, PyStr ''b'', PyStr ''Low Tech'', PyStr ''b_lt'',
       PyStr ''beam/sfbay-smart-b-lt-pilates__2019-09-12_18-51-38''],
     PyTuple [PyInt 9, PyInt 2025, PyInt 15, PyStr ''b'', PyStr ''High Tech'', PyStr ''b_ht'',
       PyStr ''beam/sfbay-smart-b-ht-pilates__2019-09-12_20-27-39''],
     PyTuple [PyInt 10, PyInt 2025, PyInt 15, PyStr ''c'', PyStr ''Low Tech'', PyStr ''c_lt'',
       PyStr ''beam/sfbay-smart-c-lt-pilates__2019-09-12_18-53-11''],
     PyTuple [PyInt 11, PyInt 2025, PyInt 15, PyStr ''c'', PyStr ''High Tech'', PyStr ''c_ht'',
       PyStr ''beam/sfbay-smart-c-ht-pilates__2019-09-12_18-54-51''],
     PyTuple [PyInt 2, PyInt 2040, PyInt 15, PyStr ''base'', PyStr ''2030 Low Tech'', PyStr ''base_fleet_2030_lt'',
       PyStr ''beam/sfbay-smart-base-2030-lt-pilates__2019-09-13_18-06-04''],
     PyTuple [PyInt 3, PyInt 2040, PyInt 15, PyStr ''base'', PyStr ''2030 High Tech'', PyStr ''base_fleet_2030_ht'',
       PyStr ''beam/sfbay-smart-base-2030-ht-pilates__2019-09-13_17-47-43''],
     PyTuple [PyInt 6, PyInt 2040, PyInt 15, PyStr ''a'', PyStr ''Low Tech'', PyStr ''a_lt'',
       PyStr ''beam/sfbay-smart-a-lt-pilates__2019-09-13_13-44-02''],
     PyTuple [PyInt 7, PyInt 2040, PyInt 15, PyStr ''a'', PyStr ''High Tech'', PyStr ''a_ht'',
       PyStr ''beam/sfbay-smart-a-ht-pilates__2019-09-13_13-39-31'']]"

named_theorems record_defs \<open>the scenario tuples\<close>
named_theorems group_defs \<open>the year groups and the catalogue\<close>

declare baseline_2010_def [record_defs] a_lt_2010_def [record_defs] a_ht_2010_def [record_defs]
  b_lt_2010_def [record_defs] b_ht_2010_def [record_defs] c_lt_2010_def [record_defs]
  c_ht_2010_def [record_defs] baseline_2025_def [record_defs]
  base_2030lt_2025_def [record_defs] base_2030ht_2025_def [record_defs]
  a_lt_2025_def [record_defs] a_ht_2025_def [record_defs] baseline_2040_def [record_defs]
  base_2045lt_2040_def [record_defs] base_2045ht_2040_def [record_defs]
  b_lt_2040_def [record_defs] b_ht_2040_def [record_defs] c_lt_2040_def [record_defs]
  c_ht_2040_def [record_defs]

declare scenarios_2010_def [group_defs] scenarios_2025_def [group_defs]
  scenarios_2040_def [group_defs] scenarios_def [group_defs]

section \<open>Properties\<close>

subsection \<open>Helper lemmas\<close>

lemma foldl_append_concat: "foldl (@) acc gs = acc @ concat gs"
  by (induction gs arbitrary: acc) simp_all

lemma build_catalog_concat: "build_catalog gs = concat gs"
  by (cases gs) (simp_all add: foldl_append_concat empty_catalog_def)

lemma group_offset_length: "group_offset gs i = length (concat (take i gs))"
  by (simp add: group_offset_def length_concat)

lemma concat_nth_group:
  assumes "i < length gs" and "j < length (gs ! i)"
  shows "concat gs ! (group_offset gs i + j) = gs ! i ! j"
proof -
  have "gs = take i gs @ gs ! i # drop (Suc i) gs"
    using assms(1) by (simp add: id_take_nth_drop)
  then have "concat gs = concat (take i gs) @ gs ! i @ concat (drop (Suc i) gs)"
    by (metis concat.simps(2) concat_append)
  then show ?thesis
    using assms(2) by (simp add: group_offset_length nth_append)
qed

lemma group_offset_Suc:
  "i < length gs \<Longrightarrow> group_offset gs (Suc i) = group_offset gs i + length (gs ! i)"
  by (simp add: group_offset_def take_Suc_conv_app_nth)

lemma invocations_append: "invocations (es @ fs) = invocations es @ invocations fs"
  by (induction es rule: invocations.induct) simp_all

lemma events_execute: "events (state_of (execute mp cfg s)) = events s @ [Invoke cfg]"
  by (simp add: execute_def split: reply.split)

lemma main_Return:
  "mp setup_config_dict (world s) = Return w' \<Longrightarrow>
   main mp s =
     Normal \<lparr>events = events s @ [Invoke setup_config_dict, Print ''END''], world = w'\<rparr>"
  by (simp add: main_def and_then_def execute_def py_print_def)

lemma main_Raise:
  "mp setup_config_dict (world s) = Raise e w' \<Longrightarrow>
   main mp s = Raised e \<lparr>events = events s @ [Invoke setup_config_dict], world = w'\<rparr>"
  by (simp add: main_def and_then_def execute_def)

lemma main_NoReturn:
  "mp setup_config_dict (world s) = NoReturn \<Longrightarrow>
   main mp s =
     Diverged \<lparr>events = events s @ [Invoke setup_config_dict], world = world s\<rparr>"
  by (simp add: main_def and_then_def execute_def)

lemma events_main:
  "events (state_of (main mp s)) =
     events s @ Invoke setup_config_dict #
       (if \<exists>w'. mp setup_config_dict (world s) = Return w' then [Print ''END''] else [])"
  by (cases "mp setup_config_dict (world s)")
    (simp_all add: main_Return main_Raise main_NoReturn)

lemma invocations_main:
  "invocations (events (state_of (main mp s))) = invocations (events s) @ [setup_config_dict]"
  by (simp add: events_main invocations_append)

lemma fetch_append: "a < length \<sigma> \<Longrightarrow> fetch (\<sigma> @ \<tau>) a = fetch \<sigma> a"
  by (simp add: fetch_def nth_append)

lemma fetch_Some_less: "fetch \<sigma> a = Some g \<Longrightarrow> a < length \<sigma>"
  by (simp add: fetch_def split: if_splits)

lemma map_fetch_append:
  "map (fetch \<sigma>) bs = map Some gs \<Longrightarrow> map (fetch (\<sigma> @ \<tau>)) bs = map Some gs"
proof (induction bs arbitrary: gs)
  case Nil
  then show ?case by simp
next
  case (Cons b bs)
  then obtain h hs where "gs = h # hs" "fetch \<sigma> b = Some h" "map (fetch \<sigma>) bs = map Some hs"
    by (cases gs) auto
  with Cons.IH show ?case
    by (simp add: fetch_append fetch_Some_less)
qed

lemma list_add_extends: "list_add a b \<sigma> = Some (c, \<sigma>') \<Longrightarrow> \<exists>x. \<sigma>' = \<sigma> @ [x]"
  by (auto simp: list_add_def split: option.splits)

lemma add_chain_extends: "add_chain a bs \<sigma> = Some (c, \<sigma>') \<Longrightarrow> \<exists>\<tau>. \<sigma>' = \<sigma> @ \<tau>"
proof (induction bs arbitrary: a \<sigma>)
  case Nil
  then show ?case by simp
next
  case (Cons b bs)
  from Cons.prems obtain d \<rho> where 1: "list_add a b \<sigma> = Some (d, \<rho>)"
    and 2: "add_chain d bs \<rho> = Some (c, \<sigma>')"
    by (auto split: option.splits)
  from list_add_extends [OF 1] obtain x where "\<rho> = \<sigma> @ [x]" ..
  moreover from Cons.IH [OF 2] obtain \<tau> where "\<sigma>' = \<rho> @ \<tau>" ..
  ultimately show ?case by simp
qed

lemma add_chain_result:
  "fetch \<sigma> a = Some g \<Longrightarrow> map (fetch \<sigma>) bs = map Some gs \<Longrightarrow>
   \<exists>c \<sigma>'. add_chain a bs \<sigma> = Some (c, \<sigma>') \<and> fetch \<sigma>' c = Some (foldl (@) g gs)"
proof (induction bs arbitrary: a g gs \<sigma>)
  case Nil
  then show ?case by simp
next
  case (Cons b bs)
  from Cons.prems(2) obtain h hs where gs: "gs = h # hs" and b: "fetch \<sigma> b = Some h"
    and bs: "map (fetch \<sigma>) bs = map Some hs"
    by (cases gs) auto
  let ?\<sigma> = "\<sigma> @ [g @ h]"
  have la: "list_add a b \<sigma> = Some (length \<sigma>, ?\<sigma>)"
    using Cons.prems(1) b by (simp add: list_add_def)
  have f1: "fetch ?\<sigma> (length \<sigma>) = Some (g @ h)"
    by (simp add: fetch_def)
  have f2: "map (fetch ?\<sigma>) bs = map Some hs"
    using bs by (rule map_fetch_append)
  from Cons.IH [OF f1 f2] la gs show ?case by simp
qed

lemma build_catalog_in_refines:
  "fetch \<sigma> a = Some g \<Longrightarrow> map (fetch \<sigma>) bs = map Some gs \<Longrightarrow>
   build_catalog_in \<sigma> a bs = Some (build_catalog (g # gs))"
  using add_chain_result [of \<sigma> a g bs gs] by (auto simp: build_catalog_in_def)

lemma execute_Return:
  "mp cfg (world s) = Return w' \<Longrightarrow>
   execute mp cfg s = Normal \<lparr>events = events s @ [Invoke cfg], world = w'\<rparr>"
  by (simp add: execute_def)

lemma execute_Raise:
  "mp cfg (world s) = Raise e w' \<Longrightarrow>
   execute mp cfg s = Raised e \<lparr>events = events s @ [Invoke cfg], world = w'\<rparr>"
  by (simp add: execute_def)

lemma execute_NoReturn:
  "mp cfg (world s) = NoReturn \<Longrightarrow>
   execute mp cfg s = Diverged \<lparr>events = events s @ [Invoke cfg], world = world s\<rparr>"
  by (simp add: execute_def)

lemma count_list_concat:
  "count_list (concat gs) r = sum_list (map (\<lambda>g. count_list g r) gs)"
  by (induction gs) simp_all

subsection \<open>Order of the catalogue\<close>

text \<open>
  C1: for every sequence of groups, \<open>build_catalog\<close> is the concatenation of the groups
  in the given order. Its length is the sum of the groups' lengths (nothing added,
  dropped or merged); record \<open>j\<close> of group \<open>i\<close> sits at position
  \<open>group_offset gs i + j\<close>, so the records of a group keep their relative order and all
  come before every record of the next group. The catalogue of the script is this
  function on the 2010, 2025 and 2040 groups, in that order.
\<close>

theorem build_catalog_is_ordered_concatenation:
  "build_catalog gs = concat gs
   \<and> length (build_catalog gs) = sum_list (map length gs)
   \<and> (\<forall>i j. i < length gs \<longrightarrow> j < length (gs ! i) \<longrightarrow>
         build_catalog gs ! (group_offset gs i + j) = gs ! i ! j)
   \<and> (\<forall>i j k. Suc i < length gs \<longrightarrow> j < length (gs ! i) \<longrightarrow> k < length (gs ! Suc i) \<longrightarrow>
         group_offset gs i + j < group_offset gs (Suc i) + k)
   \<and> scenarios = build_catalog [scenarios_2010, scenarios_2025, scenarios_2040]
   \<and> scenarios = scenarios_2010 @ scenarios_2025 @ scenarios_2040"
proof -
  have a: "build_catalog gs = concat gs"
    by (rule build_catalog_concat)
  have b: "length (build_catalog gs) = sum_list (map length gs)"
    by (simp add: a length_concat)
  have c: "\<forall>i j. i < length gs \<longrightarrow> j < length (gs ! i) \<longrightarrow>
      build_catalog gs ! (group_offset gs i + j) = gs ! i ! j"
    by (simp add: a concat_nth_group)
  have d: "\<forall>i j k. Suc i < length gs \<longrightarrow> j < length (gs ! i) \<longrightarrow> k < length (gs ! Suc i) \<longrightarrow>
      group_offset gs i + j < group_offset gs (Suc i) + k"
    by (simp add: group_offset_Suc)
  have e: "scenarios = build_catalog [scenarios_2010, scenarios_2025, scenarios_2040]"
    by (simp add: scenarios_def)
  have f: "scenarios = scenarios_2010 @ scenarios_2025 @ scenarios_2040"
    by (simp add: scenarios_def)
  from a b c d e f show ?thesis by blast
qed

theorem build_catalog_is_ordered_concatenation_witness:
  "build_catalog [[baseline_2010], [a_lt_2010, a_ht_2010]] =
     [baseline_2010, a_lt_2010, a_ht_2010]
   \<and> (1::nat) < length [[baseline_2010], [a_lt_2010, a_ht_2010]]
   \<and> (1::nat) < length ([[baseline_2010], [a_lt_2010, a_ht_2010]] ! 1)
   \<and> build_catalog [[baseline_2010], [a_lt_2010, a_ht_2010]]
        ! (group_offset [[baseline_2010], [a_lt_2010, a_ht_2010]] 1 + 1) = a_ht_2010
   \<and> group_offset [[baseline_2010], [a_lt_2010, a_ht_2010]] 0 + 0
        < group_offset [[baseline_2010], [a_lt_2010, a_ht_2010]] (Suc 0) + 1"
  using build_catalog_is_ordered_concatenation [of "[[baseline_2010], [a_lt_2010, a_ht_2010]]"]
  by (simp add: group_offset_def)

subsection \<open>Identifiers\<close>

text \<open>
  C2, as stated: no two records of the catalogue share an id. This fails: the first
  record of the catalogue (the 2010 baseline) and the eighth (the 2025 baseline) are
  different records and both have id 1.
\<close>

theorem ids_repeat_across_years:
  "scenarios ! 0 = baseline_2010 \<and> scenarios ! 7 = baseline_2025
   \<and> baseline_2010 \<noteq> baseline_2025
   \<and> record_id baseline_2010 = Some (PyInt 1) \<and> record_id baseline_2025 = Some (PyInt 1)
   \<and> \<not> distinct (map record_id scenarios)"
  by (simp add: group_defs record_defs record_id_def tuple_item_def)

text \<open>
  C2, amended: the id is unique within each year group, and the pair of id and year is
  unique in the whole catalogue. The same id stands for the same scenario variant in
  every year.
\<close>

theorem ids_unique_within_year_group:
  "distinct (map record_id scenarios_2010)
   \<and> distinct (map record_id scenarios_2025)
   \<and> distinct (map record_id scenarios_2040)
   \<and> distinct (map record_key scenarios)"
  by (simp add: group_defs record_defs record_id_def record_year_def record_key_def
      tuple_item_def)

subsection \<open>The call of the collaborator\<close>

text \<open>
  C3: whatever the collaborator is, a run of the script adds to what was done before
  exactly one call of it, with \<open>setup_config_dict\<close>, followed by the line \<^verbatim>\<open>END\<close>
  exactly when that call returns. When the call returns the script ends normally; when it
  raises \<open>e\<close> the script ends with the same \<open>e\<close>, in the world the collaborator left, and
  has printed nothing; when it never returns, neither does the script. The script ends
  normally only if the call returned.
\<close>

theorem main_invokes_once_then_marks_completion:
  "events (state_of (main mp s)) =
     events s @ Invoke setup_config_dict #
       (if \<exists>w'. mp setup_config_dict (world s) = Return w' then [Print ''END''] else [])
   \<and> invocations (events (state_of (main mp (start w)))) = [setup_config_dict]
   \<and> printed (events (state_of (main mp (start w)))) =
       (if \<exists>w'. mp setup_config_dict w = Return w' then [''END''] else [])
   \<and> (\<forall>w'. mp setup_config_dict (world s) = Return w' \<longrightarrow>
         main mp s =
           Normal \<lparr>events = events s @ [Invoke setup_config_dict, Print ''END''],
             world = w'\<rparr>)
   \<and> (\<forall>e w'. mp setup_config_dict (world s) = Raise e w' \<longrightarrow>
         main mp s = Raised e \<lparr>events = events s @ [Invoke setup_config_dict], world = w'\<rparr>)
   \<and> (mp setup_config_dict (world s) = NoReturn \<longrightarrow>
         main mp s =
           Diverged \<lparr>events = events s @ [Invoke setup_config_dict], world = world s\<rparr>)
   \<and> ((\<exists>s'. main mp s = Normal s') \<longleftrightarrow> (\<exists>w'. mp setup_config_dict (world s) = Return w'))"
proof -
  have "(\<exists>s'. main mp s = Normal s') \<longleftrightarrow> (\<exists>w'. mp setup_config_dict (world s) = Return w')"
    by (cases "mp setup_config_dict (world s)")
      (simp_all add: main_Return main_Raise main_NoReturn)
  moreover have "invocations (events (state_of (main mp (start w)))) = [setup_config_dict]"
    by (simp add: invocations_main start_def)
  moreover have "printed (events (state_of (main mp (start w)))) =
      (if \<exists>w'. mp setup_config_dict w = Return w' then [''END''] else [])"
    by (simp add: events_main start_def)
  ultimately show ?thesis
    using events_main [of mp s] main_Return [of mp s] main_Raise [of mp s]
      main_NoReturn [of mp s]
    by blast
qed

theorem main_invokes_once_then_marks_completion_witness:
  "main (\<lambda>c w. Raise ''IOError'' (Suc w)) (start (0::nat)) =
     Raised ''IOError'' \<lparr>events = [Invoke setup_config_dict], world = 1\<rparr>
   \<and> main (\<lambda>c w. (Return (Suc w) :: (string, nat) reply)) (start (0::nat)) =
       Normal \<lparr>events = [Invoke setup_config_dict, Print ''END''], world = 1\<rparr>
   \<and> main (\<lambda>c w. (NoReturn :: (string, nat) reply)) (start (0::nat)) =
       Diverged \<lparr>events = [Invoke setup_config_dict], world = 0\<rparr>"
  using
    main_invokes_once_then_marks_completion
      [of "\<lambda>c w. Raise ''IOError'' (Suc w)" "start (0::nat)"]
    main_invokes_once_then_marks_completion
      [of "\<lambda>c w. (Return (Suc w) :: (string, nat) reply)" "start (0::nat)"]
    main_invokes_once_then_marks_completion
      [of "\<lambda>c w. (NoReturn :: (string, nat) reply)" "start (0::nat)"]
  by (simp add: start_def)

subsection \<open>The run configuration\<close>

text \<open>
  C4: the dictionary of the script has the keys \<^verbatim>\<open>run_name\<close>, \<^verbatim>\<open>home_dir\<close> and
  \<^verbatim>\<open>scenarios\<close> and no other; the first two hold the two string literals and the third
  the catalogue. It is \<open>build_run_config\<close> on these three values, and for any three
  values at all \<open>build_run_config\<close> gives a dictionary with these three keys that holds
  each value as it was given: nothing is checked and nothing is refused. This dictionary
  is the argument of the one call of the collaborator.
\<close>

theorem run_config_has_three_fields:
  "dict_keys setup_config_dict = [''run_name'', ''home_dir'', ''scenarios'']
   \<and> dict_get setup_config_dict ''run_name'' = Some (PyStr ''20thSep2019'')
   \<and> dict_get setup_config_dict ''home_dir'' = Some (PyStr ''/home/ubuntu/git/jupyter/data'')
   \<and> dict_get setup_config_dict ''scenarios'' = Some (PyList scenarios)
   \<and> setup_config_dict =
       build_run_config ''20thSep2019'' ''/home/ubuntu/git/jupyter/data'' scenarios
   \<and> dict_keys (build_run_config run_name home_dir catalog) =
       [''run_name'', ''home_dir'', ''scenarios'']
   \<and> dict_get (build_run_config run_name home_dir catalog) ''run_name'' = Some (PyStr run_name)
   \<and> dict_get (build_run_config run_name home_dir catalog) ''home_dir'' = Some (PyStr home_dir)
   \<and> dict_get (build_run_config run_name home_dir catalog) ''scenarios'' =
       Some (PyList catalog)
   \<and> invocations (events (state_of (main mp (start w)))) = [setup_config_dict]"
  by (simp add: setup_config_dict_def build_run_config_def dict_keys_def dict_get_def
      invocations_main start_def)

subsection \<open>Records are not touched\<close>

text \<open>
  C5: a record \<open>r\<close> of any shape, placed after the records \<open>xs\<close> of some group, is found
  in the catalogue at the position of that place and is \<open>r\<close> itself; every value occurs
  in the catalogue as often as it occurs in the groups; the configuration built from the
  catalogue holds the catalogue as it is, and the call hands the configuration over as it
  is. In particular a record whose seventh field is not a URI comes out as it went in.
\<close>

theorem records_pass_through_unchanged:
  "build_catalog (gs1 @ [xs @ [r] @ ys] @ gs2) ! (length (build_catalog gs1) + length xs) = r
   \<and> count_list (build_catalog gs) r = sum_list (map (\<lambda>g. count_list g r) gs)
   \<and> dict_get (build_run_config run_name home_dir (build_catalog gs)) ''scenarios'' =
       Some (PyList (concat gs))
   \<and> invocations (events (state_of (execute mp config (start w)))) = [config]
   \<and> build_catalog
        [[PyTuple [PyInt 1, PyInt 2010, PyInt 15, PyStr ''base'', PyStr ''Base'',
            PyStr ''baseline'', PyStr ''::not a uri::'']]] =
       [PyTuple [PyInt 1, PyInt 2010, PyInt 15, PyStr ''base'', PyStr ''Base'',
            PyStr ''baseline'', PyStr ''::not a uri::'']]"
  by (simp add: build_catalog_concat count_list_concat nth_append build_run_config_def
      dict_get_def events_execute invocations_append start_def)

subsection \<open>Determinism\<close>

text \<open>
  C6: the catalogue depends on the records of the groups and on nothing else. Run on
  list objects in any store, the chain of \<^verbatim>\<open>+\<close> yields an object that holds exactly
  \<open>build_catalog\<close> of the groups' records; two runs on groups with the same records, in
  any two stores and at any addresses, yield the same catalogue; a run leaves every
  object that existed before it as it was, the groups included; and a second run after
  the first, on the store the first one left, yields the same catalogue again.
\<close>

theorem build_catalog_deterministic:
  "(fetch \<sigma> a = Some g \<and> map (fetch \<sigma>) bs = map Some gs \<longrightarrow>
      build_catalog_in \<sigma> a bs = Some (build_catalog (g # gs)))
   \<and> (map (fetch \<sigma>1) (a1 # bs1) = map Some hs \<and> map (fetch \<sigma>2) (a2 # bs2) = map Some hs \<longrightarrow>
        build_catalog_in \<sigma>1 a1 bs1 = build_catalog_in \<sigma>2 a2 bs2
        \<and> build_catalog_in \<sigma>1 a1 bs1 = Some (build_catalog hs))
   \<and> (add_chain a bs \<sigma> = Some (c, \<sigma>') \<longrightarrow> take (length \<sigma>) \<sigma>' = \<sigma>)
   \<and> (map (fetch \<sigma>) (a # bs) = map Some hs \<and> add_chain a bs \<sigma> = Some (c, \<sigma>') \<longrightarrow>
        build_catalog_in \<sigma>' a bs = build_catalog_in \<sigma> a bs)"
proof -
  have A: "fetch \<sigma> a = Some g \<and> map (fetch \<sigma>) bs = map Some gs \<longrightarrow>
      build_catalog_in \<sigma> a bs = Some (build_catalog (g # gs))"
    by (simp add: build_catalog_in_refines)
  have two: "build_catalog_in \<rho>1 x1 ys1 = Some (build_catalog hs)
      \<and> build_catalog_in \<rho>2 x2 ys2 = Some (build_catalog hs)"
    if "map (fetch \<rho>1) (x1 # ys1) = map Some hs" "map (fetch \<rho>2) (x2 # ys2) = map Some hs"
    for \<rho>1 \<rho>2 x1 x2 ys1 ys2
  proof -
    from that(1) obtain k ks where hs: "hs = k # ks" by (cases hs) auto
    with that show ?thesis by (simp add: build_catalog_in_refines)
  qed
  have B: "map (fetch \<sigma>1) (a1 # bs1) = map Some hs \<and> map (fetch \<sigma>2) (a2 # bs2) = map Some hs \<longrightarrow>
        build_catalog_in \<sigma>1 a1 bs1 = build_catalog_in \<sigma>2 a2 bs2
        \<and> build_catalog_in \<sigma>1 a1 bs1 = Some (build_catalog hs)"
    using two [of \<sigma>1 a1 bs1 \<sigma>2 a2 bs2] by simp
  have C: "add_chain a bs \<sigma> = Some (c, \<sigma>') \<longrightarrow> take (length \<sigma>) \<sigma>' = \<sigma>"
    using add_chain_extends [of a bs \<sigma> c \<sigma>'] by auto
  have D: "map (fetch \<sigma>) (a # bs) = map Some hs \<and> add_chain a bs \<sigma> = Some (c, \<sigma>') \<longrightarrow>
        build_catalog_in \<sigma>' a bs = build_catalog_in \<sigma> a bs"
  proof (intro impI, elim conjE)
    assume m: "map (fetch \<sigma>) (a # bs) = map Some hs" and r: "add_chain a bs \<sigma> = Some (c, \<sigma>')"
    from add_chain_extends [OF r] obtain \<tau> where "\<sigma>' = \<sigma> @ \<tau>" ..
    with m have "map (fetch \<sigma>') (a # bs) = map Some hs"
      using map_fetch_append [of \<sigma> "a # bs" hs \<tau>] by simp
    with m show "build_catalog_in \<sigma>' a bs = build_catalog_in \<sigma> a bs"
      using two [of \<sigma>' a bs \<sigma> a bs] by simp
  qed
  from A B C D show ?thesis by blast
qed

theorem build_catalog_deterministic_witness:
  "build_catalog_in [scenarios_2010, scenarios_2025, scenarios_2040] 0 [1, 2] = Some scenarios
   \<and> build_catalog_in [[], scenarios_2040, scenarios_2010, scenarios_2025] 2 [3, 1] =
       Some scenarios
   \<and> add_chain 0 [1, 2] [scenarios_2010, scenarios_2025, scenarios_2040] =
       Some (4, [scenarios_2010, scenarios_2025, scenarios_2040,
                 scenarios_2010 @ scenarios_2025, scenarios])
   \<and> build_catalog_in
        [scenarios_2010, scenarios_2025, scenarios_2040, scenarios_2010 @ scenarios_2025,
         scenarios] 0 [1, 2] = Some scenarios"
proof -
  let ?s = "[scenarios_2010, scenarios_2025, scenarios_2040]"
  let ?t = "[[], scenarios_2040, scenarios_2010, scenarios_2025]"
  let ?u = "[scenarios_2010, scenarios_2025, scenarios_2040, scenarios_2010 @ scenarios_2025,
     scenarios]"
  have h1: "map (fetch ?s) (0 # [1, 2]) = map Some ?s"
    by (simp add: fetch_def)
  have h2: "map (fetch ?t) (2 # [3, 1]) = map Some ?s"
    by (simp add: fetch_def)
  have r: "add_chain 0 [1, 2] ?s = Some (4, ?u)"
    by (simp add: list_add_def fetch_def scenarios_def)
  have b: "build_catalog ?s = scenarios"
    by (simp add: scenarios_def)
  from build_catalog_deterministic [of ?s 0 scenarios_2010 "[1, 2]" "[scenarios_2025, scenarios_2040]" ?t 2 "[3, 1]" ?s
      ?s 0 "[1, 2]" 4 ?u] h1 h2 r b
  show ?thesis by simp
qed

subsection \<open>Re-grouping\<close>

text \<open>
  C7: in any sequence of groups, replacing one group \<open>xs @ ys\<close> by the two adjacent
  groups \<open>xs\<close> and \<open>ys\<close> leaves the catalogue as it was; and the catalogue of a sequence
  cut in two is the catalogue of the two partial catalogues.
\<close>

theorem build_catalog_regrouping:
  "build_catalog (gs1 @ [xs @ ys] @ gs2) = build_catalog (gs1 @ [xs, ys] @ gs2)
   \<and> build_catalog [xs @ ys] = build_catalog [xs, ys]
   \<and> build_catalog (gs1 @ gs2) = build_catalog [build_catalog gs1, build_catalog gs2]"
  by (simp add: build_catalog_concat)

subsection \<open>Empty inputs\<close>

text \<open>
  C8: no group gives the empty catalogue, which changes nothing when joined to a
  catalogue on either side; an empty group anywhere in the sequence adds nothing; the
  configuration built from the empty catalogue holds the empty list under
  \<^verbatim>\<open>scenarios\<close>; and executing that configuration applies the collaborator to it
  exactly once: the outcome of the statement is the reply of that one application
  (return, the exception raised, or no return), in the world that application left, with
  the one call recorded.
\<close>

theorem empty_inputs_forwarded:
  "build_catalog [] = []
   \<and> build_catalog [] @ g = g \<and> g @ build_catalog [] = g
   \<and> build_catalog (gs1 @ [[]] @ gs2) = build_catalog (gs1 @ gs2)
   \<and> length (build_catalog (gs1 @ [[]] @ gs2)) =
       length (build_catalog gs1) + length (build_catalog gs2)
   \<and> dict_get (build_run_config ''x'' ''/tmp'' (build_catalog [])) ''scenarios'' =
       Some (PyList [])
   \<and> (\<forall>w'. mp (build_run_config ''x'' ''/tmp'' []) (world s) = Return w' \<longrightarrow>
         execute mp (build_run_config ''x'' ''/tmp'' []) s =
           Normal \<lparr>events = events s @ [Invoke (build_run_config ''x'' ''/tmp'' [])],
             world = w'\<rparr>)
   \<and> (\<forall>e w'. mp (build_run_config ''x'' ''/tmp'' []) (world s) = Raise e w' \<longrightarrow>
         execute mp (build_run_config ''x'' ''/tmp'' []) s =
           Raised e \<lparr>events = events s @ [Invoke (build_run_config ''x'' ''/tmp'' [])],
             world = w'\<rparr>)
   \<and> (mp (build_run_config ''x'' ''/tmp'' []) (world s) = NoReturn \<longrightarrow>
         execute mp (build_run_config ''x'' ''/tmp'' []) s =
           Diverged \<lparr>events = events s @ [Invoke (build_run_config ''x'' ''/tmp'' [])],
             world = world s\<rparr>)
   \<and> invocations (events (state_of
        (execute mp (build_run_config ''x'' ''/tmp'' []) (start w)))) =
       [build_run_config ''x'' ''/tmp'' []]"
proof -
  have a: "build_catalog [] = []"
    by (simp add: empty_catalog_def)
  have a': "build_catalog [] @ g = g \<and> g @ build_catalog [] = g"
    by (simp add: empty_catalog_def)
  have b: "build_catalog (gs1 @ [[]] @ gs2) = build_catalog (gs1 @ gs2)"
    by (simp add: build_catalog_concat)
  have c: "length (build_catalog (gs1 @ [[]] @ gs2)) =
       length (build_catalog gs1) + length (build_catalog gs2)"
    by (simp add: build_catalog_concat)
  have d: "dict_get (build_run_config ''x'' ''/tmp'' (build_catalog [])) ''scenarios'' =
       Some (PyList [])"
    by (simp add: empty_catalog_def build_run_config_def dict_get_def)
  have e: "invocations (events (state_of
        (execute mp (build_run_config ''x'' ''/tmp'' []) (start w)))) =
       [build_run_config ''x'' ''/tmp'' []]"
    by (simp add: events_execute invocations_append start_def)
  from a a' b c d e execute_Return [of mp "build_run_config ''x'' ''/tmp'' []" s]
    execute_Raise [of mp "build_run_config ''x'' ''/tmp'' []" s]
    execute_NoReturn [of mp "build_run_config ''x'' ''/tmp'' []" s]
  show ?thesis by simp
qed

theorem empty_inputs_forwarded_witness:
  "execute (\<lambda>c w. (Return (w @ [c]) :: (string, pydict list) reply))
       (build_run_config ''x'' ''/tmp'' []) (start []) =
     Normal \<lparr>events = [Invoke (build_run_config ''x'' ''/tmp'' [])],
       world = [build_run_config ''x'' ''/tmp'' []]\<rparr>
   \<and> execute (\<lambda>c w. Raise ''no scenarios'' (w @ [c]))
       (build_run_config ''x'' ''/tmp'' []) (start []) =
     Raised ''no scenarios'' \<lparr>events = [Invoke (build_run_config ''x'' ''/tmp'' [])],
       world = [build_run_config ''x'' ''/tmp'' []]\<rparr>
   \<and> execute (\<lambda>c w. (NoReturn :: (string, pydict list) reply))
       (build_run_config ''x'' ''/tmp'' []) (start []) =
     Diverged \<lparr>events = [Invoke (build_run_config ''x'' ''/tmp'' [])], world = []\<rparr>"
  using
    empty_inputs_forwarded [of _ _ _ "\<lambda>c w. (Return (w @ [c]) :: (string, pydict list) reply)" "start []"]
    empty_inputs_forwarded [of _ _ _ "\<lambda>c w. Raise ''no scenarios'' (w @ [c])" "start []"]
    empty_inputs_forwarded [of _ _ _ "\<lambda>c w. (NoReturn :: (string, pydict list) reply)" "start []"]
  by (simp add: start_def)

subsection \<open>Shape of the records\<close>

text \<open>
  C9: every record of the 2010 group has year 2010, every record of the 2025 group has
  year 2025, every record of the 2040 group has year 2040, and each of them is a tuple of
  seven fields of the kinds the schema gives.
\<close>

theorem groups_year_homogeneous:
  "(\<forall>r\<in>set scenarios_2010. record_year r = Some (PyInt 2010) \<and> scenario_record r)
   \<and> (\<forall>r\<in>set scenarios_2025. record_year r = Some (PyInt 2025) \<and> scenario_record r)
   \<and> (\<forall>r\<in>set scenarios_2040. record_year r = Some (PyInt 2040) \<and> scenario_record r)"
  by (simp add: group_defs record_defs record_year_def tuple_item_def scenario_record_def
      is_int_def is_positive_int_def is_str_def is_group_name_def)

theorem groups_year_homogeneous_witness:
  "c_ht_2010 \<in> set scenarios_2010 \<and> record_year c_ht_2010 = Some (PyInt 2010)
   \<and> scenario_record c_ht_2010
   \<and> base_2030lt_2025 \<in> set scenarios_2025 \<and> record_year base_2030lt_2025 = Some (PyInt 2025)
   \<and> scenario_record base_2030lt_2025
   \<and> baseline_2040 \<in> set scenarios_2040 \<and> record_year baseline_2040 = Some (PyInt 2040)
   \<and> scenario_record baseline_2040"
proof -
  have "c_ht_2010 \<in> set scenarios_2010" "base_2030lt_2025 \<in> set scenarios_2025"
    "baseline_2040 \<in> set scenarios_2040"
    by (simp_all add: group_defs)
  with groups_year_homogeneous show ?thesis by blast
qed

text \<open>
  C10: every record of the catalogue has horizon span 15 and a source URI that starts
  with the address of the sfbay output bucket. Among all tuples written in the file,
  enabled or commented out, one whose seventh field does not start with \<^verbatim>\<open>https://\<close>
  is a commented-out one and is not in the catalogue.
\<close>

theorem enabled_records_span_and_url:
  "(\<forall>r\<in>set scenarios.
       record_horizon_span r = Some (PyInt 15) \<and> uri_startswith sfbay_output_url r)
   \<and> (\<forall>r\<in>set (scenarios @ commented_out).
        \<not> uri_startswith ''https://'' r \<longrightarrow> r \<in> set commented_out \<and> r \<notin> set scenarios)"
proof -
  have a: "\<forall>r\<in>set scenarios.
      record_horizon_span r = Some (PyInt 15) \<and> uri_startswith sfbay_output_url r"
    by (simp add: group_defs record_defs record_horizon_span_def tuple_item_def
        uri_startswith_def record_source_uri_def sfbay_output_url_def)
  have b: "\<forall>r\<in>set scenarios. uri_startswith ''https://'' r"
    by (simp add: group_defs record_defs tuple_item_def uri_startswith_def
        record_source_uri_def)
  from a b show ?thesis by auto
qed

theorem enabled_records_span_and_url_witness:
  "baseline_2010 \<in> set scenarios \<and> record_horizon_span baseline_2010 = Some (PyInt 15)
   \<and> uri_startswith sfbay_output_url baseline_2010
   \<and> commented_out ! 0 \<in> set (scenarios @ commented_out)
   \<and> \<not> uri_startswith ''https://'' (commented_out ! 0)
   \<and> commented_out ! 0 \<in> set commented_out \<and> commented_out ! 0 \<notin> set scenarios"
proof -
  have m: "baseline_2010 \<in> set scenarios"
    by (simp add: group_defs)
  have n: "commented_out ! 0 \<in> set (scenarios @ commented_out)"
    by (simp add: commented_out_def)
  have u: "\<not> uri_startswith ''https://'' (commented_out ! 0)"
    by (simp add: commented_out_def uri_startswith_def record_source_uri_def tuple_item_def)
  from enabled_records_span_and_url m n u show ?thesis by blast
qed

end
